theory Spec2Isabelle
  imports Main "HOL-Library.Word"
begin

unbundle bit_operations_syntax

section \<open>The ADC uclass of drivers/adc/adc-uclass.c\<close>

subsection \<open>Machine integers and error numbers\<close>

text \<open>
  The target has 32-bit \<open>int\<close> and \<open>unsigned int\<close>. Both are modelled by their bit
  pattern, a \<open>32 word\<close>: arithmetic wraps, \<open>unat\<close> reads a value as \<open>unsigned\<close> and
  \<open>sint\<close> reads it as \<open>int\<close>. Conversions between the two C types keep the bits, so
  they are the identity here; a signed comparison is written \<open>sint a < sint b\<close>.
  The error numbers come from \<open>errno.h\<close> and have their Linux values.
\<close>

type_synonym u32 = "32 word"
type_synonym cint = "32 word"

definition ENOENT :: cint where "ENOENT = 2"
definition EBUSY :: cint where "EBUSY = 16"
definition EINVAL :: cint where "EINVAL = 22"
definition ENOSYS :: cint where "ENOSYS = 38"
definition ENODATA :: cint where "ENODATA = 61"

subsection \<open>Data model\<close>

text \<open>
  Modelled from the spec: the declaration of \<open>struct adc_uclass_platdata\<close> is in
  include/adc.h, which is not among the sources. The record has the fields of the
  spec's device descriptor, under the names by which adc-uclass.c reads and writes
  them and with the types of the variables it copies them to. The two supply pointers
  are \<open>struct udevice *\<close>: \<open>None\<close> is the null pointer, \<open>Some r\<close> points to the
  regulator device \<open>r\<close>.
\<close>

record 'r adc_uclass_platdata =
  data_mask :: u32
  data_timeout_us :: u32
  multidata_timeout_us :: u32
  channel_mask :: u32
  vdd_polarity_negative :: bool
  vss_polarity_negative :: bool
  vdd_microvolts :: cint
  vss_microvolts :: cint
  vdd_supply :: "'r option"
  vss_supply :: "'r option"

text \<open>
  Modelled from the spec: \<open>struct adc_channel\<close>, declared in the same header, is the
  spec's channel reading, the pair of the fields \<open>id\<close> and \<open>data\<close> that
  \<open>_adc_channels_single_shot\<close> assigns, in this order.
\<close>

type_synonym adc_channel = "cint \<times> u32"

subsection \<open>check_channel\<close>

text \<open>
  \<open>unsigned mask = number_or_mask ? (1 << value) : value;\<close> followed by the test
  \<open>(channel_mask >= mask) && (channel_mask & mask)\<close>. The diagnostic \<open>printf\<close> is
  console output and is left out. \<open>value\<close> is an \<open>int\<close> that no caller checks. C
  defines \<open>1 << value\<close> for \<open>0 \<le> value \<le> 31\<close> only (with the compiler's wrap to the
  sign bit at 31). Outside that range the compiled code shifts by the low five bits of
  the count, as the shift instructions of the 64-bit ARM target do, and this is what
  the model does: the count is \<open>unat val mod 32\<close>.
\<close>

definition check_channel :: "'r adc_uclass_platdata \<Rightarrow> cint \<Rightarrow> bool \<Rightarrow> cint" where
  "check_channel uc_pdata val number_or_mask =
     (let mask = (if number_or_mask then push_bit (unat val mod 32) (1 :: u32) else val)
      in if channel_mask uc_pdata \<ge> mask \<and> channel_mask uc_pdata AND mask \<noteq> 0
         then 0
         else - EINVAL)"

abbreviation (input) CHECK_NUMBER :: bool where "CHECK_NUMBER \<equiv> True"
abbreviation (input) CHECK_MASK :: bool where "CHECK_MASK \<equiv> \<not> CHECK_NUMBER"

subsection \<open>The world outside the uclass\<close>

text \<open>
  The driver behind \<open>dev_get_driver_ops\<close>, the regulator framework and the delay
  routine are not part of the file. They are parameters of the model: functions on a
  hardware state \<open>'s\<close> that return the C return value and the next state. A null
  function pointer of \<open>struct adc_ops\<close> is \<open>None\<close>. The operations see the hardware
  state only; they do not write the uclass platform data.

  \<^item> \<open>ops_channel_data\<close> takes the channel and the current content of \<open>*data\<close> and
    returns the new content with the status.
  \<^item> \<open>ops_channels_data\<close> does the same for the caller's array.
  \<^item> \<open>device_get_supply_regulator\<close> takes the property name and the current content
    of the pointer it may overwrite.
  \<^item> \<open>CONFIG_ADC_REQ_REGULATOR\<close> selects between the two \<open>#ifdef\<close> variants.
  \<^item> \<open>ADC_MAX_CHANNEL\<close> is the macro of include/adc.h, the last channel number the
    fallback loop visits. Its value is not in the file, so it is a parameter; the
    shift \<open>channel_mask >> channel\<close> is defined in C up to channel 31.
\<close>

record ('s, 'r) adc_env =
  CONFIG_ADC_REQ_REGULATOR :: bool
  ADC_MAX_CHANNEL :: nat
  ops_start_channel :: "(cint \<Rightarrow> 's \<Rightarrow> cint \<times> 's) option"
  ops_start_channels :: "(u32 \<Rightarrow> 's \<Rightarrow> cint \<times> 's) option"
  ops_channel_data :: "(cint \<Rightarrow> u32 \<Rightarrow> 's \<Rightarrow> cint \<times> u32 \<times> 's) option"
  ops_channels_data ::
    "(u32 \<Rightarrow> adc_channel list \<Rightarrow> 's \<Rightarrow> cint \<times> adc_channel list \<times> 's) option"
  regulator_set_enable :: "'r \<Rightarrow> bool \<Rightarrow> 's \<Rightarrow> cint \<times> 's"
  regulator_get_value :: "'r option \<Rightarrow> 's \<Rightarrow> cint \<times> 's"
  device_get_supply_regulator :: "string \<Rightarrow> 'r option \<Rightarrow> 's \<Rightarrow> cint \<times> 'r option \<times> 's"
  sdelay :: "nat \<Rightarrow> 's \<Rightarrow> 's"

text \<open>
  To count invocations, every call that leaves the file is recorded, with its
  arguments and its result, in a log kept beside the hardware state. The called
  operations cannot see or change the log.
\<close>

datatype rail = Vdd | Vss

datatype 'r event =
    Regulator_set_enable rail 'r cint
  | Device_get_supply_regulator rail cint
  | Regulator_get_value rail "'r option" cint
  | Start_channel cint cint
  | Start_channels u32 cint
  | Channel_data cint cint u32
  | Channels_data u32 cint
  | Sdelay nat

record ('s, 'r) world =
  hw :: 's
  calls :: "'r event list"

definition call_regulator_set_enable ::
  "('s, 'r) adc_env \<Rightarrow> rail \<Rightarrow> 'r \<Rightarrow> ('s, 'r) world \<Rightarrow> cint \<times> ('s, 'r) world" where
  "call_regulator_set_enable env rl r w =
     (case regulator_set_enable env r True (hw w) of
        (ret, s) \<Rightarrow> (ret, \<lparr>hw = s, calls = calls w @ [Regulator_set_enable rl r ret]\<rparr>))"

definition call_regulator_get_value ::
  "('s, 'r) adc_env \<Rightarrow> rail \<Rightarrow> 'r option \<Rightarrow> ('s, 'r) world \<Rightarrow> cint \<times> ('s, 'r) world" where
  "call_regulator_get_value env rl r w =
     (case regulator_get_value env r (hw w) of
        (ret, s) \<Rightarrow> (ret, \<lparr>hw = s, calls = calls w @ [Regulator_get_value rl r ret]\<rparr>))"

definition call_device_get_supply_regulator ::
  "('s, 'r) adc_env \<Rightarrow> rail \<Rightarrow> string \<Rightarrow> 'r option \<Rightarrow> ('s, 'r) world
     \<Rightarrow> cint \<times> 'r option \<times> ('s, 'r) world" where
  "call_device_get_supply_regulator env rl name devp w =
     (case device_get_supply_regulator env name devp (hw w) of
        (ret, devp', s) \<Rightarrow>
          (ret, devp', \<lparr>hw = s, calls = calls w @ [Device_get_supply_regulator rl ret]\<rparr>))"

definition call_start_channel ::
  "(cint \<Rightarrow> 's \<Rightarrow> cint \<times> 's) \<Rightarrow> cint \<Rightarrow> ('s, 'r) world \<Rightarrow> cint \<times> ('s, 'r) world" where
  "call_start_channel start channel w =
     (case start channel (hw w) of
        (ret, s) \<Rightarrow> (ret, \<lparr>hw = s, calls = calls w @ [Start_channel channel ret]\<rparr>))"

definition call_start_channels ::
  "(u32 \<Rightarrow> 's \<Rightarrow> cint \<times> 's) \<Rightarrow> u32 \<Rightarrow> ('s, 'r) world \<Rightarrow> cint \<times> ('s, 'r) world" where
  "call_start_channels start chan_mask w =
     (case start chan_mask (hw w) of
        (ret, s) \<Rightarrow> (ret, \<lparr>hw = s, calls = calls w @ [Start_channels chan_mask ret]\<rparr>))"

definition call_channel_data ::
  "(cint \<Rightarrow> u32 \<Rightarrow> 's \<Rightarrow> cint \<times> u32 \<times> 's) \<Rightarrow> cint \<Rightarrow> u32 \<Rightarrow> ('s, 'r) world
     \<Rightarrow> cint \<times> u32 \<times> ('s, 'r) world" where
  "call_channel_data rd channel data w =
     (case rd channel data (hw w) of
        (ret, data', s) \<Rightarrow>
          (ret, data', \<lparr>hw = s, calls = calls w @ [Channel_data channel ret data']\<rparr>))"

definition call_channels_data ::
  "(u32 \<Rightarrow> adc_channel list \<Rightarrow> 's \<Rightarrow> cint \<times> adc_channel list \<times> 's) \<Rightarrow> u32
     \<Rightarrow> adc_channel list \<Rightarrow> ('s, 'r) world \<Rightarrow> cint \<times> adc_channel list \<times> ('s, 'r) world" where
  "call_channels_data rd chan_mask channels w =
     (case rd chan_mask channels (hw w) of
        (ret, channels', s) \<Rightarrow>
          (ret, channels', \<lparr>hw = s, calls = calls w @ [Channels_data chan_mask ret]\<rparr>))"

definition call_sdelay :: "('s, 'r) adc_env \<Rightarrow> nat \<Rightarrow> ('s, 'r) world \<Rightarrow> ('s, 'r) world" where
  "call_sdelay env n w = \<lparr>hw = sdelay env n (hw w), calls = calls w @ [Sdelay n]\<rparr>"

subsection \<open>adc_supply_enable\<close>

text \<open>
  With \<open>CONFIG_ADC_REQ_REGULATOR\<close>: enable the VDD regulator if the pointer is set,
  then, if that gave 0, the VSS regulator if its pointer is set. Without it the
  function is the inline stub that returns 0. The \<open>pr_err\<close> is left out.
\<close>

definition adc_supply_enable ::
  "('s, 'r) adc_env \<Rightarrow> 'r adc_uclass_platdata \<Rightarrow> ('s, 'r) world \<Rightarrow> cint \<times> ('s, 'r) world" where
  "adc_supply_enable env uc_pdata w =
     (if \<not> CONFIG_ADC_REQ_REGULATOR env then (0, w)
      else
        case (case vdd_supply uc_pdata of
                Some r \<Rightarrow> call_regulator_set_enable env Vdd r w
              | None \<Rightarrow> (0, w)) of
          (ret, w1) \<Rightarrow>
            (case vss_supply uc_pdata of
               Some r \<Rightarrow> if ret = 0 then call_regulator_set_enable env Vss r w1 else (ret, w1)
             | None \<Rightarrow> (ret, w1)))"

subsection \<open>adc_start_channel and adc_start_channels\<close>

definition adc_start_channel ::
  "('s, 'r) adc_env \<Rightarrow> 'r adc_uclass_platdata \<Rightarrow> cint \<Rightarrow> ('s, 'r) world
     \<Rightarrow> cint \<times> ('s, 'r) world" where
  "adc_start_channel env uc_pdata channel w =
     (case ops_start_channel env of
        None \<Rightarrow> (- ENOSYS, w)
      | Some start \<Rightarrow>
          let ret = check_channel uc_pdata channel CHECK_NUMBER in
          if ret \<noteq> 0 then (ret, w)
          else case adc_supply_enable env uc_pdata w of
            (ret, w1) \<Rightarrow>
              if ret \<noteq> 0 then (ret, w1)
              else call_start_channel start channel w1)"

definition adc_start_channels ::
  "('s, 'r) adc_env \<Rightarrow> 'r adc_uclass_platdata \<Rightarrow> u32 \<Rightarrow> ('s, 'r) world
     \<Rightarrow> cint \<times> ('s, 'r) world" where
  "adc_start_channels env uc_pdata chan_mask w =
     (case ops_start_channels env of
        None \<Rightarrow> (- ENOSYS, w)
      | Some start \<Rightarrow>
          let ret = check_channel uc_pdata chan_mask CHECK_MASK in
          if ret \<noteq> 0 then (ret, w)
          else case adc_supply_enable env uc_pdata w of
            (ret, w1) \<Rightarrow>
              if ret \<noteq> 0 then (ret, w1)
              else call_start_channels start chan_mask w1)"

subsection \<open>adc_channel_data and adc_channels_data\<close>

text \<open>
  The loop \<open>do { ret = ops->channel_data(...); if (!ret || ret != -EBUSY) break;
  sdelay(5); } while (timeout_us--);\<close>. The post-decrement tests the old value of the
  unsigned counter, so the recursion continues while it is not 0 and passes on the
  counter less one. The result is the last status, the content of \<open>*data\<close> and the
  world.
\<close>

function channel_data_loop ::
  "('s, 'r) adc_env \<Rightarrow> (cint \<Rightarrow> u32 \<Rightarrow> 's \<Rightarrow> cint \<times> u32 \<times> 's) \<Rightarrow> cint \<Rightarrow> u32 \<Rightarrow> u32
     \<Rightarrow> ('s, 'r) world \<Rightarrow> cint \<times> u32 \<times> ('s, 'r) world" where
  "channel_data_loop env rd channel timeout_us data w =
     (case call_channel_data rd channel data w of
        (ret, data', w1) \<Rightarrow>
          if ret = 0 \<or> ret \<noteq> - EBUSY then (ret, data', w1)
          else
            let w2 = call_sdelay env 5 w1 in
            if timeout_us \<noteq> 0
            then channel_data_loop env rd channel (timeout_us - 1) data' w2
            else (ret, data', w2))"
  by pat_completeness auto
termination
  by (relation "measure (\<lambda>(env, rd, channel, timeout_us, data, w). unat timeout_us)")
     (auto simp: measure_unat)

definition adc_channel_data ::
  "('s, 'r) adc_env \<Rightarrow> 'r adc_uclass_platdata \<Rightarrow> cint \<Rightarrow> u32 \<Rightarrow> ('s, 'r) world
     \<Rightarrow> cint \<times> u32 \<times> ('s, 'r) world" where
  "adc_channel_data env uc_pdata channel data w =
     (let timeout_us = data_timeout_us uc_pdata in
      case ops_channel_data env of
        None \<Rightarrow> (- ENOSYS, data, w)
      | Some rd \<Rightarrow>
          let ret = check_channel uc_pdata channel CHECK_NUMBER in
          if ret \<noteq> 0 then (ret, data, w)
          else channel_data_loop env rd channel timeout_us data w)"

function channels_data_loop ::
  "('s, 'r) adc_env \<Rightarrow> (u32 \<Rightarrow> adc_channel list \<Rightarrow> 's \<Rightarrow> cint \<times> adc_channel list \<times> 's)
     \<Rightarrow> u32 \<Rightarrow> u32 \<Rightarrow> adc_channel list \<Rightarrow> ('s, 'r) world
     \<Rightarrow> cint \<times> adc_channel list \<times> ('s, 'r) world" where
  "channels_data_loop env rd chan_mask timeout_us channels w =
     (case call_channels_data rd chan_mask channels w of
        (ret, channels', w1) \<Rightarrow>
          if ret = 0 \<or> ret \<noteq> - EBUSY then (ret, channels', w1)
          else
            let w2 = call_sdelay env 5 w1 in
            if timeout_us \<noteq> 0
            then channels_data_loop env rd chan_mask (timeout_us - 1) channels' w2
            else (ret, channels', w2))"
  by pat_completeness auto
termination
  by (relation "measure (\<lambda>(env, rd, chan_mask, timeout_us, channels, w). unat timeout_us)")
     (auto simp: measure_unat)

definition adc_channels_data ::
  "('s, 'r) adc_env \<Rightarrow> 'r adc_uclass_platdata \<Rightarrow> u32 \<Rightarrow> adc_channel list \<Rightarrow> ('s, 'r) world
     \<Rightarrow> cint \<times> adc_channel list \<times> ('s, 'r) world" where
  "adc_channels_data env uc_pdata chan_mask channels w =
     (let timeout_us = multidata_timeout_us uc_pdata in
      case ops_channels_data env of
        None \<Rightarrow> (- ENOSYS, channels, w)
      | Some rd \<Rightarrow>
          let ret = check_channel uc_pdata chan_mask CHECK_MASK in
          if ret \<noteq> 0 then (ret, channels, w)
          else channels_data_loop env rd chan_mask timeout_us channels w)"

subsection \<open>_adc_channels_single_shot\<close>

text \<open>
  The loop \<open>for (channel = 0; channel <= ADC_MAX_CHANNEL; channel++)\<close>. The counter
  is a natural number, converted where the source passes the \<open>int\<close> on. \<open>data\<close> is
  the local variable that \<open>adc_channel_data\<close> writes through its pointer. \<open>channels\<close>
  is what has been stored through the advancing pointer \<open>channels\<close> so far, in array
  order: \<open>channels->id = channel; channels->data = data; channels++\<close> appends one
  element. The caller's array holds these elements when the function returns,
  whatever the status is.
\<close>

function single_shot_loop ::
  "('s, 'r) adc_env \<Rightarrow> 'r adc_uclass_platdata \<Rightarrow> u32 \<Rightarrow> nat \<Rightarrow> u32 \<Rightarrow> adc_channel list
     \<Rightarrow> ('s, 'r) world \<Rightarrow> cint \<times> adc_channel list \<times> ('s, 'r) world" where
  "single_shot_loop env uc_pdata chan_mask channel data channels w =
     (if channel \<le> ADC_MAX_CHANNEL env then
        if drop_bit channel chan_mask AND 1 = 0
        then single_shot_loop env uc_pdata chan_mask (channel + 1) data channels w
        else
          case adc_start_channel env uc_pdata (of_nat channel) w of
            (ret, w1) \<Rightarrow>
              if ret \<noteq> 0 then (ret, channels, w1)
              else
                case adc_channel_data env uc_pdata (of_nat channel) data w1 of
                  (ret, data', w2) \<Rightarrow>
                    if ret \<noteq> 0 then (ret, channels, w2)
                    else single_shot_loop env uc_pdata chan_mask (channel + 1) data'
                           (channels @ [(of_nat channel, data')]) w2
      else (0, channels, w))"
  by pat_completeness auto
termination
  by (relation "measure (\<lambda>(env, uc_pdata, chan_mask, channel, data, channels, w).
                  Suc (ADC_MAX_CHANNEL env) - channel)")
     auto

text \<open>
  The static function \<open>_adc_channels_single_shot\<close>, named with a suffix because a
  name cannot begin with an underscore here. \<open>data0\<close> is the indeterminate initial
  content of the local \<open>data\<close>; the pointer \<open>channels\<close> starts at the first
  element of the caller's array.
\<close>

definition adc_channels_single_shot_fallback ::
  "('s, 'r) adc_env \<Rightarrow> 'r adc_uclass_platdata \<Rightarrow> u32 \<Rightarrow> u32 \<Rightarrow> ('s, 'r) world
     \<Rightarrow> cint \<times> adc_channel list \<times> ('s, 'r) world" where
  "adc_channels_single_shot_fallback env uc_pdata chan_mask data0 w =
     single_shot_loop env uc_pdata chan_mask 0 data0 [] w"

subsection \<open>adc_vdd_platdata_update and adc_vdd_value\<close>

text \<open>
  With \<open>CONFIG_ADC_REQ_REGULATOR\<close> the update looks the regulator up, which may
  overwrite \<open>vdd_supply\<close>, asks it for its value, and stores a value that is not
  negative in \<open>vdd_microvolts\<close>. Without it the function is the stub that returns 0.
  All functions return the platform data as they leave it.
\<close>

definition adc_vdd_platdata_update ::
  "('s, 'r) adc_env \<Rightarrow> 'r adc_uclass_platdata \<Rightarrow> ('s, 'r) world
     \<Rightarrow> cint \<times> 'r adc_uclass_platdata \<times> ('s, 'r) world" where
  "adc_vdd_platdata_update env uc_pdata w =
     (if \<not> CONFIG_ADC_REQ_REGULATOR env then (0, uc_pdata, w)
      else
        case call_device_get_supply_regulator env Vdd ''vdd-supply'' (vdd_supply uc_pdata) w of
          (ret, devp, w1) \<Rightarrow>
            let uc1 = uc_pdata\<lparr>vdd_supply := devp\<rparr> in
            if ret \<noteq> 0 then (ret, uc1, w1)
            else
              case call_regulator_get_value env Vdd (vdd_supply uc1) w1 of
                (ret, w2) \<Rightarrow>
                  if sint ret < 0 then (ret, uc1, w2)
                  else (0, uc1\<lparr>vdd_microvolts := ret\<rparr>, w2))"

text \<open>
  The code after the label \<open>nodev\<close>, and the function that reaches it either by the
  \<open>goto\<close> or after a successful update. \<open>uV\<close> is the content of \<open>*uV\<close>; the product
  is the wrapping one of the machine.
\<close>

definition adc_vdd_value_nodev ::
  "cint \<Rightarrow> 'r adc_uclass_platdata \<Rightarrow> cint \<Rightarrow> ('s, 'r) world
     \<Rightarrow> cint \<times> cint \<times> 'r adc_uclass_platdata \<times> ('s, 'r) world" where
  "adc_vdd_value_nodev value_sign uc_pdata uV w =
     (if vdd_microvolts uc_pdata = - ENODATA then (- ENODATA, uV, uc_pdata, w)
      else (0, vdd_microvolts uc_pdata * value_sign, uc_pdata, w))"

definition adc_vdd_value ::
  "('s, 'r) adc_env \<Rightarrow> 'r adc_uclass_platdata \<Rightarrow> cint \<Rightarrow> ('s, 'r) world
     \<Rightarrow> cint \<times> cint \<times> 'r adc_uclass_platdata \<times> ('s, 'r) world" where
  "adc_vdd_value env uc_pdata uV w =
     (let value_sign = (if vdd_polarity_negative uc_pdata then - 1 else 1) in
      case vdd_supply uc_pdata of
        None \<Rightarrow> adc_vdd_value_nodev value_sign uc_pdata uV w
      | Some r \<Rightarrow>
          case adc_vdd_platdata_update env uc_pdata w of
            (ret, uc1, w1) \<Rightarrow>
              if ret \<noteq> 0 then (ret, uV, uc1, w1)
              else adc_vdd_value_nodev value_sign uc1 uV w1)"

declare channel_data_loop.simps [simp del]
declare channels_data_loop.simps [simp del]
declare single_shot_loop.simps [simp del]

section \<open>Vocabulary of the properties\<close>

subsection \<open>Reading the log\<close>

text \<open>
  \<open>new_calls w w'\<close> are the calls recorded after \<open>w\<close> in a later world \<open>w'\<close>.
  \<open>count_channel_data\<close> counts the invocations of the driver's \<open>channel_data\<close>.
\<close>

definition new_calls :: "('s, 'r) world \<Rightarrow> ('s, 'r) world \<Rightarrow> 'r event list" where
  "new_calls w w' = drop (length (calls w)) (calls w')"

fun is_Channel_data :: "'r event \<Rightarrow> bool" where
  "is_Channel_data (Channel_data channel ret data) = True"
| "is_Channel_data e = False"

definition count_channel_data :: "'r event list \<Rightarrow> nat" where
  "count_channel_data es = length (filter is_Channel_data es)"

text \<open>
  \<open>completed\<close> keeps the driver starts and reads that returned 0, in their order.
\<close>

fun is_completed :: "'r event \<Rightarrow> bool" where
  "is_completed (Start_channel channel ret) = (ret = 0)"
| "is_completed (Channel_data channel ret data) = (ret = 0)"
| "is_completed e = False"

definition completed :: "'r event list \<Rightarrow> 'r event list" where
  "completed es = filter is_completed es"

subsection \<open>The attempts of a polling read\<close>

text \<open>
  \<open>poll_state env rd channel n (data, s)\<close> is the content of \<open>*data\<close> and the hardware
  state after \<open>n\<close> rounds of the polling loop that went on, each a call of the
  driver's read followed by \<open>sdelay(5)\<close>. \<open>nth_attempt env rd channel k data s\<close> is what
  the driver's read returns at its \<open>k\<close>-th invocation (\<open>k \<ge> 1\<close>) when the \<open>k - 1\<close>
  invocations before it were followed by the delay.
\<close>

fun poll_state ::
  "('s, 'r) adc_env \<Rightarrow> (cint \<Rightarrow> u32 \<Rightarrow> 's \<Rightarrow> cint \<times> u32 \<times> 's) \<Rightarrow> cint \<Rightarrow> nat \<Rightarrow> u32 \<times> 's
     \<Rightarrow> u32 \<times> 's" where
  "poll_state env rd channel 0 ds = ds"
| "poll_state env rd channel (Suc n) ds =
     (case rd channel (fst ds) (snd ds) of
        (ret, data', s') \<Rightarrow> poll_state env rd channel n (data', sdelay env 5 s'))"

definition nth_attempt ::
  "('s, 'r) adc_env \<Rightarrow> (cint \<Rightarrow> u32 \<Rightarrow> 's \<Rightarrow> cint \<times> u32 \<times> 's) \<Rightarrow> cint \<Rightarrow> nat \<Rightarrow> u32 \<Rightarrow> 's
     \<Rightarrow> cint \<times> u32 \<times> 's" where
  "nth_attempt env rd channel k data s =
     (case poll_state env rd channel (k - 1) (data, s) of (d, s') \<Rightarrow> rd channel d s')"

subsection \<open>Cycles of the fallback\<close>


definition cycle_fails ::
  "('s, 'r) adc_env \<Rightarrow> 'r adc_uclass_platdata \<Rightarrow> cint \<Rightarrow> u32 \<Rightarrow> ('s, 'r) world \<Rightarrow> cint
     \<Rightarrow> ('s, 'r) world \<Rightarrow> bool" where
  "cycle_fails env uc_pdata channel data w ret w' \<longleftrightarrow>
     ret \<noteq> 0 \<and>
     (adc_start_channel env uc_pdata channel w = (ret, w') \<or>
      (\<exists>w1 d. adc_start_channel env uc_pdata channel w = (0, w1) \<and>
               adc_channel_data env uc_pdata channel data w1 = (ret, d, w')))"

text \<open>
  \<open>completed_cycles env uc_pdata cs data w\<close> runs the single-channel cycles of the
  channels \<open>cs\<close> one after the other, \<open>adc_start_channel\<close> and then
  \<open>adc_channel_data\<close>, from the world \<open>w\<close> with \<open>data\<close> in the local variable. It is
  \<open>Some (readings, data', w')\<close> when every start and every read returned 0, with the
  readings in the order of \<open>cs\<close>, the last content of the local variable and the
  world reached; it is \<open>None\<close> as soon as one of them returned an error.
\<close>

fun completed_cycles ::
  "('s, 'r) adc_env \<Rightarrow> 'r adc_uclass_platdata \<Rightarrow> nat list \<Rightarrow> u32 \<Rightarrow> ('s, 'r) world
     \<Rightarrow> (adc_channel list \<times> u32 \<times> ('s, 'r) world) option" where
  "completed_cycles env uc_pdata [] data w = Some ([], data, w)"
| "completed_cycles env uc_pdata (c # cs) data w =
     (case adc_start_channel env uc_pdata (of_nat c) w of
        (r1, w1) \<Rightarrow>
          if r1 \<noteq> 0 then None
          else
            case adc_channel_data env uc_pdata (of_nat c) data w1 of
              (r2, d, w2) \<Rightarrow>
                if r2 \<noteq> 0 then None
                else
                  case completed_cycles env uc_pdata cs d w2 of
                    None \<Rightarrow> None
                  | Some (rs, d', w') \<Rightarrow> Some ((of_nat c, d) # rs, d', w'))"

subsection \<open>A device for the examples\<close>

text \<open>
  A device with channels 1 and 3 (mask \<open>0b1010\<close>), a single-read budget of 3 and no
  supplies, and a driver without the multi-channel operations whose start succeeds
  and whose read delivers \<open>100 + channel\<close> at once. Its hardware state counts the
  reads. Regulators are numbered; enabling and looking them up succeeds and each
  reports 3300 microvolts. The examples below change single fields of the two.
\<close>

definition ex_pdata :: "nat adc_uclass_platdata" where
  "ex_pdata = \<lparr>data_mask = 0xFFF, data_timeout_us = 3, multidata_timeout_us = 3,
     channel_mask = 0b1010, vdd_polarity_negative = False, vss_polarity_negative = False,
     vdd_microvolts = - ENODATA, vss_microvolts = - ENODATA,
     vdd_supply = None, vss_supply = None\<rparr>"

definition ex_env :: "(nat, nat) adc_env" where
  "ex_env = \<lparr>CONFIG_ADC_REQ_REGULATOR = True, ADC_MAX_CHANNEL = 31,
     ops_start_channel = Some (\<lambda>channel s. (0, s)),
     ops_start_channels = None,
     ops_channel_data = Some (\<lambda>channel data s. (0, 100 + channel, Suc s)),
     ops_channels_data = None,
     regulator_set_enable = (\<lambda>r on s. (0, s)),
     regulator_get_value = (\<lambda>r s. (3300, s)),
     device_get_supply_regulator = (\<lambda>name devp s. (0, devp, s)),
     sdelay = (\<lambda>n s. s)\<rparr>"

definition ex_world :: "(nat, nat) world" where
  "ex_world = \<lparr>hw = 0, calls = []\<rparr>"

text \<open>A read that is busy on every invocation.\<close>

definition ex_busy_read :: "cint \<Rightarrow> u32 \<Rightarrow> nat \<Rightarrow> cint \<times> u32 \<times> nat" where
  "ex_busy_read channel data s = (- EBUSY, data, Suc s)"

text \<open>A read that is busy twice and delivers \<open>100 + channel\<close> from the third time on.\<close>

definition ex_slow_read :: "cint \<Rightarrow> u32 \<Rightarrow> nat \<Rightarrow> cint \<times> u32 \<times> nat" where
  "ex_slow_read channel data s =
     (if s < 2 then (- EBUSY, data, Suc s) else (0, 100 + channel, Suc s))"

text \<open>A start that fails with \<open>-EIO\<close> on channel 3, and a regulator 0 that cannot be enabled.\<close>

definition ex_start_fail3 :: "cint \<Rightarrow> nat \<Rightarrow> cint \<times> nat" where
  "ex_start_fail3 channel s = (if channel = 3 then - 5 else 0, s)"

definition ex_enable_fail0 :: "nat \<Rightarrow> bool \<Rightarrow> nat \<Rightarrow> cint \<times> nat" where
  "ex_enable_fail0 r on s = (if r = 0 then - 5 else 0, s)"

section \<open>Properties\<close>

subsection \<open>Auxiliary facts\<close>

lemma EBUSY_neq_0 [simp]: "EBUSY \<noteq> 0"
  by (simp add: EBUSY_def)

lemma EINVAL_neq_0 [simp]: "EINVAL \<noteq> 0"
  by (simp add: EINVAL_def)

lemma new_calls_append [simp]: "calls w' = calls w @ es \<Longrightarrow> new_calls w w' = es"
  by (simp add: new_calls_def)

lemma count_channel_data_simps [simp]:
  "count_channel_data [] = 0"
  "count_channel_data (e # es) = (if is_Channel_data e then 1 else 0) + count_channel_data es"
  "count_channel_data (es @ fs) = count_channel_data es + count_channel_data fs"
  by (simp_all add: count_channel_data_def)

lemma subset_mask_le:
  fixes R M :: u32
  assumes "R AND M = R"
  shows "R \<le> M"
proof -
  have "R AND M \<le> M" by (rule word_and_le1)
  with assms show ?thesis by simp
qed

subsection \<open>Channel validation\<close>

text \<open>
  C1, as amended. For a device with channel mask \<open>M\<close> and a mask request \<open>R\<close>: if \<open>R\<close>
  is not empty and \<open>R & M == R\<close>, the validator returns 0; if \<open>R\<close> shares no bit
  with \<open>M\<close>, as the empty request does, or if \<open>R\<close> is greater than \<open>M\<close> as a number,
  as \<open>0b1110\<close> is for \<open>M = 0b1010\<close>, it returns \<open>-EINVAL\<close>.
\<close>

theorem check_channel_mask_subset_accepted:
  "(R \<noteq> 0 \<and> R AND channel_mask uc_pdata = R \<longrightarrow> check_channel uc_pdata R CHECK_MASK = 0) \<and>
   (channel_mask uc_pdata AND R = 0 \<longrightarrow> check_channel uc_pdata R CHECK_MASK = - EINVAL) \<and>
   (channel_mask uc_pdata < R \<longrightarrow> check_channel uc_pdata R CHECK_MASK = - EINVAL)"
  using subset_mask_le [of R "channel_mask uc_pdata"]
  by (auto simp add: check_channel_def and.commute)

theorem check_channel_mask_subset_accepted_witness:
  "((0b1000 :: u32) \<noteq> 0 \<and> 0b1000 AND channel_mask ex_pdata = 0b1000) \<and>
   check_channel ex_pdata 0b1000 CHECK_MASK = 0 \<and>
   channel_mask ex_pdata AND 0b0101 = 0 \<and>
   check_channel ex_pdata 0b0101 CHECK_MASK = - EINVAL \<and>
   channel_mask ex_pdata < 0b1110 \<and>
   check_channel ex_pdata 0b1110 CHECK_MASK = - EINVAL"
proof -
  have a: "(0b1000 :: u32) \<noteq> 0 \<and> 0b1000 AND channel_mask ex_pdata = 0b1000"
    by (simp add: ex_pdata_def)
  have b: "channel_mask ex_pdata AND 0b0101 = 0"
    by (simp add: ex_pdata_def)
  have c: "channel_mask ex_pdata < 0b1110"
    by (simp add: ex_pdata_def)
  from check_channel_mask_subset_accepted [of "0b1000" ex_pdata]
    check_channel_mask_subset_accepted [of "0b0101" ex_pdata]
    check_channel_mask_subset_accepted [of "0b1110" ex_pdata] a b c
  show ?thesis by blast
qed

theorem check_channel_mask_subset_counterexample:
  "\<not> (check_channel ex_pdata 0 CHECK_MASK = 0 \<longleftrightarrow> 0 AND channel_mask ex_pdata = (0 :: u32))"
  by (simp add: check_channel_def ex_pdata_def)

text \<open>
  The test is weaker than the subset rule on the other side: with \<open>M = 0b1010\<close> the
  request \<open>0b0110\<close>, which names the inactive channel 2, is accepted.
\<close>

lemma check_channel_mask_accepts_overlap:
  "check_channel ex_pdata 0b0110 CHECK_MASK = 0 \<and> 0b0110 AND channel_mask ex_pdata \<noteq> (0b0110 :: u32)"
  by (simp add: check_channel_def ex_pdata_def)

text \<open>
  C2, as amended. For a channel number \<open>c\<close> with \<open>0 \<le> c \<le> 31\<close>, the range in which
  \<open>1 << c\<close> is defined, the validator returns 0 if and only if bit \<open>c\<close> of the
  channel mask is set.
\<close>

theorem check_channel_number_iff:
  assumes "unat val < 32"
  shows "check_channel uc_pdata val CHECK_NUMBER = 0
           \<longleftrightarrow> bit (channel_mask uc_pdata) (unat val)"
proof -
  let ?M = "channel_mask uc_pdata" and ?b = "push_bit (unat val) (1 :: u32)"
  have and_iff: "?M AND ?b \<noteq> 0 \<longleftrightarrow> bit ?M (unat val)"
    by (simp add: bit_iff_and_push_bit_not_eq_0)
  have "?b \<le> ?M" if "bit ?M (unat val)"
  proof -
    have "?M AND ?b = ?b"
      using that assms by (intro bit_word_eqI) (auto simp add: bit_simps)
    moreover have "?M AND ?b \<le> ?M" by (rule word_and_le2)
    ultimately show ?thesis by simp
  qed
  with and_iff assms show ?thesis
    by (auto simp add: check_channel_def)
qed

theorem check_channel_number_iff_witness:
  "unat (3 :: cint) < 32 \<and> check_channel ex_pdata 3 CHECK_NUMBER = 0 \<and>
   bit (channel_mask ex_pdata) (unat (3 :: cint))"
proof -
  have a: "unat (3 :: cint) < 32" by simp
  have b: "bit (channel_mask ex_pdata) (unat (3 :: cint))"
    by (simp add: ex_pdata_def)
  from check_channel_number_iff [OF a, of ex_pdata] a b show ?thesis by simp
qed

text \<open>
  Beyond 31 the equivalence fails: for the device with channels 1 and 3 the channel
  number 33 is accepted, because the shift by 33 is the shift by 1, although the mask
  has no bit 33.
\<close>

theorem check_channel_number_counterexample:
  "\<not> (check_channel ex_pdata 33 CHECK_NUMBER = 0
        \<longleftrightarrow> bit (channel_mask ex_pdata) (unat (33 :: cint)))"
  by (simp add: check_channel_def ex_pdata_def bit_word_iff_drop_bit_and)

text \<open>
  C10, as amended. The validator rejects the empty mask with \<open>-EINVAL\<close> whatever the
  channel mask is. \<open>adc_start_channels\<close> and \<open>adc_channels_data\<close> return this
  \<open>-EINVAL\<close>, without calling the driver, when the driver implements
  \<open>start_channels\<close> and \<open>channels_data\<close> respectively; a driver without the operation
  gets \<open>-ENOSYS\<close> before the mask is looked at.
\<close>

theorem empty_mask_rejected:
  "check_channel uc_pdata 0 CHECK_MASK = - EINVAL \<and>
   (ops_start_channels env \<noteq> None \<longrightarrow> adc_start_channels env uc_pdata 0 w = (- EINVAL, w)) \<and>
   (ops_channels_data env \<noteq> None \<longrightarrow>
      adc_channels_data env uc_pdata 0 channels w = (- EINVAL, channels, w))"
  by (auto simp add: check_channel_def adc_start_channels_def adc_channels_data_def)

theorem empty_mask_rejected_witness:
  "ops_start_channels (ex_env\<lparr>ops_start_channels := Some (\<lambda>m s. (0, s)),
       ops_channels_data := Some (\<lambda>m cs s. (0, cs, s))\<rparr>) \<noteq> None \<and>
   ops_channels_data (ex_env\<lparr>ops_start_channels := Some (\<lambda>m s. (0, s)),
       ops_channels_data := Some (\<lambda>m cs s. (0, cs, s))\<rparr>) \<noteq> None \<and>
   adc_start_channels (ex_env\<lparr>ops_start_channels := Some (\<lambda>m s. (0, s)),
       ops_channels_data := Some (\<lambda>m cs s. (0, cs, s))\<rparr>) ex_pdata 0 ex_world
     = (- EINVAL, ex_world) \<and>
   adc_channels_data (ex_env\<lparr>ops_start_channels := Some (\<lambda>m s. (0, s)),
       ops_channels_data := Some (\<lambda>m cs s. (0, cs, s))\<rparr>) ex_pdata 0 [] ex_world
     = (- EINVAL, [], ex_world)"
  using empty_mask_rejected [of ex_pdata
      "ex_env\<lparr>ops_start_channels := Some (\<lambda>m s. (0, s)),
         ops_channels_data := Some (\<lambda>m cs s. (0, cs, s))\<rparr>" ex_world "[]"]
  by simp

theorem empty_mask_rejected_counterexample:
  "\<not> (check_channel ex_pdata 0 CHECK_MASK = - EINVAL \<and>
      fst (adc_start_channels ex_env ex_pdata 0 ex_world) = - EINVAL \<and>
      fst (adc_channels_data ex_env ex_pdata 0 [] ex_world) = - EINVAL)"
  by (simp add: adc_start_channels_def ex_env_def ENOSYS_def EINVAL_def)

subsection \<open>The polling read\<close>

lemma unat_pred: "T \<noteq> 0 \<Longrightarrow> unat (T - 1 :: u32) = unat T - 1"
  by (simp add: unat_minus_one)

lemma loop_busy_step:
  assumes "rd channel data (hw w) = (- EBUSY, data', s)"
  shows "channel_data_loop env rd channel T data w =
     (if T \<noteq> 0
      then channel_data_loop env rd channel (T - 1) data'
             \<lparr>hw = sdelay env 5 s,
              calls = calls w @ [Channel_data channel (- EBUSY) data', Sdelay 5]\<rparr>
      else (- EBUSY, data',
             \<lparr>hw = sdelay env 5 s,
              calls = calls w @ [Channel_data channel (- EBUSY) data', Sdelay 5]\<rparr>))"
  by (subst channel_data_loop.simps)
     (simp add: call_channel_data_def call_sdelay_def assms)

lemma loop_answer_step:
  assumes "rd channel data (hw w) = (ret, data', s)" and "ret \<noteq> - EBUSY"
  shows "channel_data_loop env rd channel T data w =
     (ret, data', \<lparr>hw = s, calls = calls w @ [Channel_data channel ret data']\<rparr>)"
  by (subst channel_data_loop.simps) (simp add: call_channel_data_def assms)

lemma busy_loop:
  assumes busy: "\<forall>d s. fst (rd channel d s) = - EBUSY"
  shows "\<exists>w' es. channel_data_loop env rd channel T data w =
       (- EBUSY, fst (poll_state env rd channel (unat T + 1) (data, hw w)), w') \<and>
     hw w' = snd (poll_state env rd channel (unat T + 1) (data, hw w)) \<and>
     calls w' = calls w @ es \<and> count_channel_data es = unat T + 1"
proof (induction "unat T" arbitrary: T data w)
  case 0
  obtain ret data' s where rd: "rd channel data (hw w) = (ret, data', s)"
    by (cases "rd channel data (hw w)")
  with busy have rd': "rd channel data (hw w) = (- EBUSY, data', s)"
    by (metis fst_conv)
  from 0 have "T = 0" by (simp add: unat_eq_0)
  then show ?case
    by (simp add: loop_busy_step [of rd channel data w data' s, OF rd'] rd')
next
  case (Suc n)
  obtain ret data' s where rd: "rd channel data (hw w) = (ret, data', s)"
    by (cases "rd channel data (hw w)")
  with busy have rd': "rd channel data (hw w) = (- EBUSY, data', s)"
    by (metis fst_conv)
  from Suc.hyps(2) have T: "T \<noteq> 0" by auto
  with Suc.hyps(2) have n: "n = unat (T - 1)" by (simp add: unat_pred)
  let ?w1 = "\<lparr>hw = sdelay env 5 s,
              calls = calls w @ [Channel_data channel (- EBUSY) data', Sdelay 5]\<rparr>"
  have rounds: "poll_state env rd channel (unat T + 1) (data, hw w) =
      poll_state env rd channel (unat (T - 1) + 1) (data', hw ?w1)"
    using Suc.hyps(2) n by (simp add: rd')
  from Suc.hyps(1) [OF n, of data' ?w1] obtain w' es
    where "channel_data_loop env rd channel (T - 1) data' ?w1 =
        (- EBUSY, fst (poll_state env rd channel (unat (T - 1) + 1) (data', hw ?w1)), w')"
      and "hw w' = snd (poll_state env rd channel (unat (T - 1) + 1) (data', hw ?w1))"
      and "calls w' = calls ?w1 @ es" and "count_channel_data es = unat (T - 1) + 1"
    by blast
  with T Suc.hyps(2) n show ?case
    unfolding rounds
    by (simp add: loop_busy_step [of rd channel data w data' s, OF rd'])
qed

lemma loop_first_answer:
  assumes "j \<le> unat T"
    and "\<forall>i<j. fst (nth_attempt env rd channel (Suc i) data (hw w)) = - EBUSY"
    and "nth_attempt env rd channel (Suc j) data (hw w) = (ret, data', s)"
    and "ret \<noteq> - EBUSY"
  shows "\<exists>w' es. channel_data_loop env rd channel T data w = (ret, data', w') \<and> hw w' = s \<and>
     calls w' = calls w @ es \<and> count_channel_data es = Suc j"
  using assms
proof (induction j arbitrary: T data w)
  case 0
  then have "rd channel data (hw w) = (ret, data', s)"
    by (simp add: nth_attempt_def)
  from loop_answer_step [of rd channel data w ret data' s, OF this \<open>ret \<noteq> - EBUSY\<close>]
  show ?case by simp
next
  case (Suc j)
  obtain r1 d1 s1 where rd: "rd channel data (hw w) = (r1, d1, s1)"
    by (cases "rd channel data (hw w)")
  from Suc.prems(2) have "fst (nth_attempt env rd channel (Suc 0) data (hw w)) = - EBUSY"
    by blast
  with rd have rd': "rd channel data (hw w) = (- EBUSY, d1, s1)"
    by (simp add: nth_attempt_def)
  let ?w1 = "\<lparr>hw = sdelay env 5 s1,
              calls = calls w @ [Channel_data channel (- EBUSY) d1, Sdelay 5]\<rparr>"
  have shift: "nth_attempt env rd channel (Suc (Suc i)) data (hw w) =
      nth_attempt env rd channel (Suc i) d1 (hw ?w1)" for i
    by (simp add: nth_attempt_def rd')
  from Suc.prems(1) have T: "T \<noteq> 0" by auto
  with Suc.prems(1) have le: "j \<le> unat (T - 1)" by (simp add: unat_pred)
  have busy: "\<forall>i<j. fst (nth_attempt env rd channel (Suc i) d1 (hw ?w1)) = - EBUSY"
    using Suc.prems(2) shift by (metis Suc_less_eq)
  have ans: "nth_attempt env rd channel (Suc j) d1 (hw ?w1) = (ret, data', s)"
    using Suc.prems(3) shift by simp
  from Suc.IH [OF le busy ans Suc.prems(4)] obtain w' es
    where "channel_data_loop env rd channel (T - 1) d1 ?w1 = (ret, data', w')"
      and "hw w' = s" and "calls w' = calls ?w1 @ es" and "count_channel_data es = Suc j"
    by blast
  with T show ?case
    by (simp add: loop_busy_step [of rd channel data w d1 s1, OF rd'])
qed

text \<open>
  C3. When the driver's \<open>channel_data\<close> answers \<open>-EBUSY\<close> to every invocation for the
  channel, \<open>adc_channel_data\<close> on a valid channel with budget \<open>T = data_timeout_us\<close>
  invokes it exactly \<open>T + 1\<close> times and returns \<open>-EBUSY\<close>: the content of \<open>*data\<close>
  and the hardware are what \<open>T + 1\<close> rounds of the driver's read, each followed by
  the delay, make of them, and the log has \<open>T + 1\<close> invocations of the read.
\<close>

theorem always_busy_reads_budget_plus_one:
  assumes "ops_channel_data env = Some rd"
    and "\<forall>d s. fst (rd channel d s) = - EBUSY"
    and "check_channel uc_pdata channel CHECK_NUMBER = 0"
    and "adc_channel_data env uc_pdata channel data w = (ret, data', w')"
  shows "ret = - EBUSY \<and>
         (data', hw w') =
           poll_state env rd channel (unat (data_timeout_us uc_pdata) + 1) (data, hw w) \<and>
         count_channel_data (new_calls w w') = unat (data_timeout_us uc_pdata) + 1"
proof -
  let ?T = "data_timeout_us uc_pdata"
  from busy_loop [of rd channel env ?T data w, OF assms(2)]
  obtain w1 es
    where "channel_data_loop env rd channel ?T data w =
        (- EBUSY, fst (poll_state env rd channel (unat ?T + 1) (data, hw w)), w1)"
      and "hw w1 = snd (poll_state env rd channel (unat ?T + 1) (data, hw w))"
      and "calls w1 = calls w @ es"
      and "count_channel_data es = unat ?T + 1"
    by blast
  with assms(1,3,4) show ?thesis
    by (auto simp add: adc_channel_data_def)
qed

theorem always_busy_reads_budget_plus_one_witness:
  "ops_channel_data (ex_env\<lparr>ops_channel_data := Some ex_busy_read\<rparr>) = Some ex_busy_read \<and>
   (\<forall>d s. fst (ex_busy_read 1 d s) = - EBUSY) \<and>
   check_channel ex_pdata 1 CHECK_NUMBER = 0 \<and>
   fst (adc_channel_data (ex_env\<lparr>ops_channel_data := Some ex_busy_read\<rparr>) ex_pdata 1 0 ex_world)
     = - EBUSY \<and>
   fst (snd (adc_channel_data (ex_env\<lparr>ops_channel_data := Some ex_busy_read\<rparr>)
      ex_pdata 1 0 ex_world)) = 0 \<and>
   hw (snd (snd (adc_channel_data (ex_env\<lparr>ops_channel_data := Some ex_busy_read\<rparr>)
      ex_pdata 1 0 ex_world))) = 4 \<and>
   count_channel_data (new_calls ex_world
      (snd (snd (adc_channel_data (ex_env\<lparr>ops_channel_data := Some ex_busy_read\<rparr>)
         ex_pdata 1 0 ex_world)))) = 4"
proof -
  let ?env = "ex_env\<lparr>ops_channel_data := Some ex_busy_read\<rparr>"
  have a: "ops_channel_data ?env = Some ex_busy_read" by simp
  have b: "\<forall>d s. fst (ex_busy_read 1 d s) = - EBUSY" by (simp add: ex_busy_read_def)
  have c: "check_channel ex_pdata 1 CHECK_NUMBER = 0"
    by (simp add: check_channel_def ex_pdata_def)
  have d: "adc_channel_data ?env ex_pdata 1 0 ex_world =
      (fst (adc_channel_data ?env ex_pdata 1 0 ex_world),
       fst (snd (adc_channel_data ?env ex_pdata 1 0 ex_world)),
       snd (snd (adc_channel_data ?env ex_pdata 1 0 ex_world)))"
    by simp
  have e: "unat (data_timeout_us ex_pdata) + 1 = 4" by (simp add: ex_pdata_def)
  have f: "poll_state ?env ex_busy_read 1 4 (0, hw ex_world) = (0, 4)"
    by (simp add: numeral_eq_Suc ex_busy_read_def ex_world_def ex_env_def)
  from always_busy_reads_budget_plus_one [OF a b c d, unfolded e f] a b c show ?thesis
    by simp
qed

text \<open>
  C4. When the driver's read answers something other than \<open>-EBUSY\<close> for the first
  time at its \<open>k\<close>-th invocation, with \<open>1 \<le> k \<le> T + 1\<close>, \<open>adc_channel_data\<close> on a
  valid channel invokes it exactly \<open>k\<close> times and returns the status and the content
  of \<open>*data\<close> of that invocation, leaving the hardware in the state that invocation
  left it in.
\<close>

theorem first_answer_after_k_reads:
  assumes "ops_channel_data env = Some rd"
    and "check_channel uc_pdata channel CHECK_NUMBER = 0"
    and "1 \<le> k" and "k \<le> unat (data_timeout_us uc_pdata) + 1"
    and "\<forall>i. 1 \<le> i \<and> i < k \<longrightarrow> fst (nth_attempt env rd channel i data (hw w)) = - EBUSY"
    and "nth_attempt env rd channel k data (hw w) = (ret, data', s)"
    and "ret \<noteq> - EBUSY"
  shows "\<exists>w'. adc_channel_data env uc_pdata channel data w = (ret, data', w') \<and> hw w' = s \<and>
           count_channel_data (new_calls w w') = k"
proof -
  from assms(3) obtain j where k: "k = Suc j"
    by (cases k) auto
  with assms(4) have le: "j \<le> unat (data_timeout_us uc_pdata)" by simp
  have busy: "\<forall>i<j. fst (nth_attempt env rd channel (Suc i) data (hw w)) = - EBUSY"
    using assms(5) k by simp
  from loop_first_answer [OF le busy assms(6) [unfolded k] assms(7)] obtain w' es
    where "channel_data_loop env rd channel (data_timeout_us uc_pdata) data w = (ret, data', w')"
      and "hw w' = s" and "calls w' = calls w @ es" and "count_channel_data es = Suc j"
    by blast
  with assms(1,2) k show ?thesis
    by (auto simp add: adc_channel_data_def)
qed

theorem first_answer_after_k_reads_witness:
  "ops_channel_data (ex_env\<lparr>ops_channel_data := Some ex_slow_read\<rparr>) = Some ex_slow_read \<and>
   check_channel ex_pdata 1 CHECK_NUMBER = 0 \<and>
   (3 :: nat) \<le> unat (data_timeout_us ex_pdata) + 1 \<and>
   fst (nth_attempt (ex_env\<lparr>ops_channel_data := Some ex_slow_read\<rparr>) ex_slow_read 1 1 0
          (hw ex_world)) = - EBUSY \<and>
   fst (nth_attempt (ex_env\<lparr>ops_channel_data := Some ex_slow_read\<rparr>) ex_slow_read 1 2 0
          (hw ex_world)) = - EBUSY \<and>
   nth_attempt (ex_env\<lparr>ops_channel_data := Some ex_slow_read\<rparr>) ex_slow_read 1 3 0 (hw ex_world)
     = (0, 101, 3) \<and>
   (\<exists>w'. adc_channel_data (ex_env\<lparr>ops_channel_data := Some ex_slow_read\<rparr>) ex_pdata 1 0 ex_world
            = (0, 101, w') \<and> hw w' = 3 \<and> count_channel_data (new_calls ex_world w') = 3)"
proof -
  let ?env = "ex_env\<lparr>ops_channel_data := Some ex_slow_read\<rparr>"
  have a: "ops_channel_data ?env = Some ex_slow_read" by simp
  have b: "check_channel ex_pdata 1 CHECK_NUMBER = 0"
    by (simp add: check_channel_def ex_pdata_def)
  have c: "(1 :: nat) \<le> 3" by simp
  have d: "(3 :: nat) \<le> unat (data_timeout_us ex_pdata) + 1" by (simp add: ex_pdata_def)
  have e: "\<forall>i. 1 \<le> i \<and> i < 3 \<longrightarrow>
      fst (nth_attempt ?env ex_slow_read 1 i 0 (hw ex_world)) = - EBUSY"
  proof (intro allI impI)
    fix i :: nat assume "1 \<le> i \<and> i < 3"
    then have "i = 1 \<or> i = 2" by arith
    then show "fst (nth_attempt ?env ex_slow_read 1 i 0 (hw ex_world)) = - EBUSY"
      by (auto simp add: nth_attempt_def ex_slow_read_def ex_world_def ex_env_def numeral_2_eq_2)
  qed
  have f: "nth_attempt ?env ex_slow_read 1 3 0 (hw ex_world) = (0, 101, 3)"
    by (simp add: nth_attempt_def ex_slow_read_def ex_world_def ex_env_def numeral_2_eq_2)
  have g: "(0 :: cint) \<noteq> - EBUSY" by (simp add: EBUSY_def)
  from e have e1: "fst (nth_attempt ?env ex_slow_read 1 1 0 (hw ex_world)) = - EBUSY"
    and e2: "fst (nth_attempt ?env ex_slow_read 1 2 0 (hw ex_world)) = - EBUSY"
    by simp_all
  from first_answer_after_k_reads [OF a b c d e f g] a b d e1 e2 f show ?thesis
    by blast
qed

subsection \<open>Supplies\<close>

text \<open>
  C5. If, during \<open>adc_start_channel\<close>, enabling the VDD supply fails with \<open>e \<noteq> 0\<close>,
  then \<open>adc_start_channel\<close> returns \<open>e\<close>, the VSS supply's enable is not invoked and
  the driver's start is not invoked.
\<close>

theorem vdd_failure_short_circuits:
  assumes "adc_start_channel env uc_pdata channel w = (ret, w')"
    and "Regulator_set_enable Vdd r e \<in> set (new_calls w w')"
    and "e \<noteq> 0"
  shows "ret = e \<and>
         (\<forall>r' e'. Regulator_set_enable Vss r' e' \<notin> set (new_calls w w')) \<and>
         (\<forall>c e'. Start_channel c e' \<notin> set (new_calls w w'))"
  using assms
  by (auto simp add: adc_start_channel_def adc_supply_enable_def call_regulator_set_enable_def
      call_start_channel_def new_calls_def Let_def
      split: if_splits option.splits prod.splits)


theorem vdd_failure_short_circuits_witness:
  "adc_start_channel (ex_env\<lparr>regulator_set_enable := ex_enable_fail0\<rparr>)
     (ex_pdata\<lparr>vdd_supply := Some 0, vss_supply := Some 1\<rparr>) 1 ex_world
     = (- 5, \<lparr>hw = 0, calls = [Regulator_set_enable Vdd 0 (- 5)]\<rparr>) \<and>
   Regulator_set_enable Vdd 0 (- 5) \<in> set (new_calls ex_world
       \<lparr>hw = 0, calls = [Regulator_set_enable Vdd 0 (- 5)]\<rparr>) \<and>
   (- 5 :: cint) \<noteq> 0 \<and>
   (\<forall>r' e'. Regulator_set_enable Vss r' e' \<notin> set (new_calls ex_world
       \<lparr>hw = 0, calls = [Regulator_set_enable Vdd 0 (- 5)]\<rparr>)) \<and>
   (\<forall>c e'. Start_channel c e' \<notin> set (new_calls ex_world
       \<lparr>hw = 0, calls = [Regulator_set_enable Vdd 0 (- 5)]\<rparr>))"
proof -
  let ?w' = "\<lparr>hw = 0 :: nat, calls = [Regulator_set_enable Vdd (0 :: nat) (- 5)]\<rparr>"
  have a: "adc_start_channel (ex_env\<lparr>regulator_set_enable := ex_enable_fail0\<rparr>)
     (ex_pdata\<lparr>vdd_supply := Some 0, vss_supply := Some 1\<rparr>) 1 ex_world = (- 5, ?w')"
    by (simp add: adc_start_channel_def adc_supply_enable_def call_regulator_set_enable_def
        ex_env_def ex_pdata_def ex_world_def ex_enable_fail0_def check_channel_def)
  have b: "Regulator_set_enable Vdd 0 (- 5) \<in> set (new_calls ex_world ?w')"
    by (simp add: new_calls_def ex_world_def)
  have c: "(- 5 :: cint) \<noteq> 0" by simp
  from vdd_failure_short_circuits [OF a b c] a b c show ?thesis by blast
qed

subsection \<open>Voltage of the VDD rail\<close>

lemma sint_neg_cint:
  fixes v :: cint
  assumes "sint v \<noteq> - (2 ^ 31)"
  shows "sint (- v) = - sint v"
proof -
  have "- (2 ^ 31) \<le> sint v" "sint v < 2 ^ 31"
    using sint_ge [of v] sint_lt [of v] by simp_all
  with assms have "- (2 ^ 31) \<le> - sint v" "- sint v < 2 ^ 31"
    by simp_all
  then have "signed_take_bit 31 (- sint v) = - sint v"
    by (simp add: signed_take_bit_int_eq_self)
  then show ?thesis
    by (simp add: sint_word_ariths)
qed

text \<open>
  C8. With no VDD supply configured, \<open>adc_vdd_value\<close> returns \<open>-ENODATA\<close> and leaves
  \<open>*uV\<close> alone when the cached \<open>vdd_microvolts\<close> is the sentinel \<open>-ENODATA\<close>;
  otherwise it returns 0 and stores the cached value times \<open>-1\<close> if
  \<open>vdd_polarity_negative\<close> is set, times 1 if not. The product is the machine's; read
  as \<open>int\<close> it is the mathematical product unless the cached value is the least
  \<open>int\<close>. Neither the descriptor nor the world changes.
\<close>

theorem vdd_value_without_supply:
  assumes "vdd_supply uc_pdata = None"
  shows "adc_vdd_value env uc_pdata uV w =
     (if vdd_microvolts uc_pdata = - ENODATA then (- ENODATA, uV, uc_pdata, w)
      else (0, vdd_microvolts uc_pdata * (if vdd_polarity_negative uc_pdata then - 1 else 1),
            uc_pdata, w)) \<and>
     (sint (vdd_microvolts uc_pdata) \<noteq> - (2 ^ 31) \<longrightarrow>
      sint (vdd_microvolts uc_pdata * (if vdd_polarity_negative uc_pdata then - 1 else 1))
        = sint (vdd_microvolts uc_pdata) * (if vdd_polarity_negative uc_pdata then - 1 else 1))"
  using assms sint_neg_cint [of "vdd_microvolts uc_pdata"]
  by (auto simp add: adc_vdd_value_def adc_vdd_value_nodev_def)

theorem vdd_value_without_supply_witness:
  "vdd_supply ex_pdata = None \<and>
   adc_vdd_value ex_env ex_pdata 0 ex_world = (- ENODATA, 0, ex_pdata, ex_world) \<and>
   vdd_supply (ex_pdata\<lparr>vdd_microvolts := 1800, vdd_polarity_negative := True\<rparr>) = None \<and>
   sint (1800 :: cint) \<noteq> - (2 ^ 31) \<and>
   adc_vdd_value ex_env (ex_pdata\<lparr>vdd_microvolts := 1800, vdd_polarity_negative := True\<rparr>)
       0 ex_world
     = (0, - 1800, ex_pdata\<lparr>vdd_microvolts := 1800, vdd_polarity_negative := True\<rparr>, ex_world) \<and>
   sint (- 1800 :: cint) = - 1800"
proof -
  let ?p = "ex_pdata\<lparr>vdd_microvolts := 1800, vdd_polarity_negative := True\<rparr>"
  have a: "vdd_supply ex_pdata = None" by (simp add: ex_pdata_def)
  have b: "vdd_supply ?p = None" by (simp add: ex_pdata_def)
  have c: "vdd_microvolts ex_pdata = - ENODATA" by (simp add: ex_pdata_def)
  have d: "vdd_microvolts ?p \<noteq> - ENODATA" "vdd_microvolts ?p = 1800" "vdd_polarity_negative ?p"
    by (simp_all add: ENODATA_def)
  have e: "sint (- 1800 :: cint) = - 1800" "sint (1800 :: cint) \<noteq> - (2 ^ 31)" by simp_all
  from vdd_value_without_supply [OF a, of ex_env 0 ex_world]
    vdd_value_without_supply [OF b, of ex_env 0 ex_world] a b c d e
  show ?thesis by simp
qed

text \<open>
  C9. In a build with regulator support and with a VDD supply configured, a call of
  \<open>adc_vdd_value\<close> that returns 0 has looked up the property \<open>vdd-supply\<close>, with
  success, and has asked the regulator that the lookup left in \<open>vdd_supply\<close> for its
  value \<open>v\<close>, which is not negative; these are its only calls, and the hardware is as
  the query left it. It has stored \<open>v\<close> in the cached \<open>vdd_microvolts\<close> and changed
  nothing else of the descriptor, and \<open>*uV\<close> holds \<open>v\<close> times \<open>-1\<close> if
  \<open>vdd_polarity_negative\<close> is set, times 1 if not.
\<close>

theorem vdd_value_with_supply:
  assumes "CONFIG_ADC_REQ_REGULATOR env"
    and "vdd_supply uc_pdata = Some r"
    and "adc_vdd_value env uc_pdata uV w = (0, uV', uc', w')"
  shows "\<exists>devp s1 v s2.
           device_get_supply_regulator env ''vdd-supply'' (Some r) (hw w) = (0, devp, s1) \<and>
           regulator_get_value env devp s1 = (v, s2) \<and>
           0 \<le> sint v \<and>
           uc' = uc_pdata\<lparr>vdd_supply := devp, vdd_microvolts := v\<rparr> \<and>
           hw w' = s2 \<and>
           new_calls w w' =
             [Device_get_supply_regulator Vdd 0, Regulator_get_value Vdd devp v] \<and>
           uV' = v * (if vdd_polarity_negative uc_pdata then - 1 else 1) \<and>
           sint uV' = sint v * (if vdd_polarity_negative uc_pdata then - 1 else 1)"
proof -
  have neg: "sint (- v) = - sint v" if "0 \<le> sint v" for v :: cint
    using that by (intro sint_neg_cint) simp
  have nodata: "sint (- ENODATA) = - 61" "ENODATA \<noteq> 0"
    by (simp_all add: ENODATA_def)
  obtain r1 devp s1
    where look: "device_get_supply_regulator env ''vdd-supply'' (Some r) (hw w) = (r1, devp, s1)"
    by (cases "device_get_supply_regulator env ''vdd-supply'' (Some r) (hw w)")
  obtain v s2 where ask: "regulator_get_value env devp s1 = (v, s2)"
    by (cases "regulator_get_value env devp s1")
  from assms look ask have "r1 = 0"
    by (auto simp add: adc_vdd_value_def adc_vdd_value_nodev_def adc_vdd_platdata_update_def
        call_device_get_supply_regulator_def call_regulator_get_value_def Let_def
        split: if_splits)
  with assms look ask
  have "0 \<le> sint v \<and>
      uc' = uc_pdata\<lparr>vdd_supply := devp, vdd_microvolts := v\<rparr> \<and>
      hw w' = s2 \<and>
      new_calls w w' = [Device_get_supply_regulator Vdd 0, Regulator_get_value Vdd devp v] \<and>
      uV' = v * (if vdd_polarity_negative uc_pdata then - 1 else 1) \<and>
      sint uV' = sint v * (if vdd_polarity_negative uc_pdata then - 1 else 1)"
    by (auto simp add: adc_vdd_value_def adc_vdd_value_nodev_def adc_vdd_platdata_update_def
        call_device_get_supply_regulator_def call_regulator_get_value_def Let_def new_calls_def
        neg nodata
        split: if_splits)
  with look ask \<open>r1 = 0\<close> show ?thesis by blast
qed

theorem vdd_value_with_supply_witness:
  "CONFIG_ADC_REQ_REGULATOR ex_env \<and>
   vdd_supply (ex_pdata\<lparr>vdd_supply := Some 0\<rparr>) = Some 0 \<and>
   adc_vdd_value ex_env (ex_pdata\<lparr>vdd_supply := Some 0\<rparr>) 0 ex_world
     = (0, 3300, ex_pdata\<lparr>vdd_supply := Some 0, vdd_microvolts := 3300\<rparr>,
        \<lparr>hw = 0, calls = [Device_get_supply_regulator Vdd 0,
                           Regulator_get_value Vdd (Some 0) 3300]\<rparr>) \<and>
   (\<exists>devp s1 v s2.
      device_get_supply_regulator ex_env ''vdd-supply'' (Some 0) (hw ex_world) = (0, devp, s1) \<and>
      regulator_get_value ex_env devp s1 = (v, s2) \<and>
      0 \<le> sint v \<and>
      ex_pdata\<lparr>vdd_supply := Some 0, vdd_microvolts := 3300\<rparr>
        = ex_pdata\<lparr>vdd_supply := Some 0\<rparr>\<lparr>vdd_supply := devp, vdd_microvolts := v\<rparr> \<and>
      hw \<lparr>hw = 0 :: nat, calls = [Device_get_supply_regulator Vdd 0,
                           Regulator_get_value Vdd (Some (0 :: nat)) 3300]\<rparr> = s2 \<and>
      new_calls ex_world
        \<lparr>hw = 0 :: nat, calls = [Device_get_supply_regulator Vdd 0,
                           Regulator_get_value Vdd (Some (0 :: nat)) 3300]\<rparr>
        = [Device_get_supply_regulator Vdd 0, Regulator_get_value Vdd devp v] \<and>
      (3300 :: cint)
        = v * (if vdd_polarity_negative (ex_pdata\<lparr>vdd_supply := Some 0\<rparr>) then - 1 else 1) \<and>
      sint (3300 :: cint)
        = sint v * (if vdd_polarity_negative (ex_pdata\<lparr>vdd_supply := Some 0\<rparr>) then - 1 else 1)) \<and>
   regulator_get_value ex_env (Some 0) 0 = (3300, 0) \<and>
   sint (3300 :: cint) = 3300"
proof -
  let ?p = "ex_pdata\<lparr>vdd_supply := Some 0\<rparr>"
  have a: "CONFIG_ADC_REQ_REGULATOR ex_env" by (simp add: ex_env_def)
  have b: "vdd_supply ?p = Some 0" by simp
  have c: "adc_vdd_value ex_env ?p 0 ex_world
     = (0, 3300, ex_pdata\<lparr>vdd_supply := Some 0, vdd_microvolts := 3300\<rparr>,
        \<lparr>hw = 0, calls = [Device_get_supply_regulator Vdd 0,
                           Regulator_get_value Vdd (Some 0) 3300]\<rparr>)"
    by (simp add: adc_vdd_value_def adc_vdd_value_nodev_def adc_vdd_platdata_update_def
        call_device_get_supply_regulator_def call_regulator_get_value_def Let_def
        ex_env_def ex_pdata_def ex_world_def ENODATA_def)
  have d: "regulator_get_value ex_env (Some 0) 0 = (3300, 0)" "sint (3300 :: cint) = 3300"
    by (simp_all add: ex_env_def)
  from vdd_value_with_supply [OF a b c] a b c d show ?thesis
    by blast
qed

subsection \<open>The fallback engine\<close>

lemma channel_bit_test: "(drop_bit c (m :: u32) AND 1 = 0) \<longleftrightarrow> \<not> bit m c"
  by (simp add: and_one_eq bit_iff_odd_drop_bit even_iff_mod_2_eq_zero)

lemma completed_simps [simp]:
  "completed [] = []"
  "completed (e # es) = (if is_completed e then e # completed es else completed es)"
  "completed (es @ fs) = completed es @ completed fs"
  by (simp_all add: completed_def)




lemma single_shot_done:
  "\<not> c \<le> ADC_MAX_CHANNEL env \<Longrightarrow> single_shot_loop env pd m c data acc w = (0, acc, w)"
  by (subst single_shot_loop.simps) simp

lemma single_shot_skip:
  "c \<le> ADC_MAX_CHANNEL env \<Longrightarrow> \<not> bit m c \<Longrightarrow>
     single_shot_loop env pd m c data acc w = single_shot_loop env pd m (Suc c) data acc w"
  by (subst single_shot_loop.simps) (simp add: channel_bit_test)

lemma single_shot_start_fail:
  "c \<le> ADC_MAX_CHANNEL env \<Longrightarrow> bit m c \<Longrightarrow>
   adc_start_channel env pd (of_nat c) w = (ret, w1) \<Longrightarrow> ret \<noteq> 0 \<Longrightarrow>
     single_shot_loop env pd m c data acc w = (ret, acc, w1)"
  by (subst single_shot_loop.simps) (simp add: channel_bit_test)

lemma single_shot_read_fail:
  "c \<le> ADC_MAX_CHANNEL env \<Longrightarrow> bit m c \<Longrightarrow>
   adc_start_channel env pd (of_nat c) w = (0, w1) \<Longrightarrow>
   adc_channel_data env pd (of_nat c) data w1 = (ret, d, w2) \<Longrightarrow> ret \<noteq> 0 \<Longrightarrow>
     single_shot_loop env pd m c data acc w = (ret, acc, w2)"
  by (subst single_shot_loop.simps) (simp add: channel_bit_test)

lemma single_shot_cycle:
  "c \<le> ADC_MAX_CHANNEL env \<Longrightarrow> bit m c \<Longrightarrow>
   adc_start_channel env pd (of_nat c) w = (0, w1) \<Longrightarrow>
   adc_channel_data env pd (of_nat c) data w1 = (0, d, w2) \<Longrightarrow>
     single_shot_loop env pd m c data acc w =
       single_shot_loop env pd m (Suc c) d (acc @ [(of_nat c, d)]) w2"
  by (subst single_shot_loop.simps) (simp add: channel_bit_test)






lemma single_shot_prefix:
  "c0 \<le> c \<Longrightarrow> c \<le> Suc (ADC_MAX_CHANNEL env) \<Longrightarrow>
   completed_cycles env pd (filter (bit m) [c0..<c]) data w = Some (rs, d, w1) \<Longrightarrow>
     single_shot_loop env pd m c0 data acc w = single_shot_loop env pd m c d (acc @ rs) w1"
proof (induction "c - c0" arbitrary: c0 data acc w rs)
  case 0
  then show ?case by simp
next
  case (Suc n)
  then have lt: "c0 < c" and n: "n = c - Suc c0" and le: "Suc c0 \<le> c"
    and c0: "c0 \<le> ADC_MAX_CHANNEL env"
    by simp_all
  from lt have upt: "[c0..<c] = c0 # [Suc c0..<c]"
    by (simp add: upt_conv_Cons)
  show ?case
  proof (cases "bit m c0")
    case False
    with Suc.prems(3) upt
    have "completed_cycles env pd (filter (bit m) [Suc c0..<c]) data w = Some (rs, d, w1)"
      by simp
    from Suc.hyps(1) [OF n le Suc.prems(2) this] False c0 show ?thesis
      by (simp add: single_shot_skip)
  next
    case True
    obtain r1 w2 where st: "adc_start_channel env pd (of_nat c0) w = (r1, w2)"
      by (cases "adc_start_channel env pd (of_nat c0) w")
    obtain r2 d2 w3 where rd: "adc_channel_data env pd (of_nat c0) data w2 = (r2, d2, w3)"
      by (cases "adc_channel_data env pd (of_nat c0) data w2")
    from Suc.prems(3) upt True st rd obtain rs'
      where r: "r1 = 0" "r2 = 0" and rs: "rs = (of_nat c0, d2) # rs'"
        and rest: "completed_cycles env pd (filter (bit m) [Suc c0..<c]) d2 w3 = Some (rs', d, w1)"
      by (auto split: if_splits option.splits)
    from Suc.hyps(1) [OF n le Suc.prems(2) rest, of "acc @ [(of_nat c0, d2)]"]
      single_shot_cycle [OF c0 True st [unfolded r] rd [unfolded r], of acc] rs
    show ?thesis by simp
  qed
qed

text \<open>
  C7. The engine is all-or-nothing in what it reports. When the cycles of the
  requested channels below a requested channel \<open>c\<close> have all completed and the start
  or the read of \<open>c\<close> fails with the status \<open>ret\<close>, the whole operation ends with
  that call and returns \<open>ret\<close>, which is not 0: the world is the one the failing call
  left, so no later channel is started or read, and the caller gets the failure, not
  a success with fewer results. The elements that the completed cycles stored are
  not cleared from the caller's array; the status is all the function returns.
\<close>

theorem fallback_aborts_at_first_failure:
  assumes "c \<le> ADC_MAX_CHANNEL env" and "bit m c"
    and "completed_cycles env uc_pdata (filter (bit m) [0..<c]) data0 w
           = Some (channels, data_c, w_c)"
    and "cycle_fails env uc_pdata (of_nat c) data_c w_c ret w'"
  shows "adc_channels_single_shot_fallback env uc_pdata m data0 w = (ret, channels, w') \<and>
         ret \<noteq> 0"
proof -
  from assms(1) have "c \<le> Suc (ADC_MAX_CHANNEL env)" by simp
  from single_shot_prefix [OF _ this assms(3), of "[]"]
  have reach: "single_shot_loop env uc_pdata m 0 data0 [] w =
      single_shot_loop env uc_pdata m c data_c channels w_c"
    by simp
  from assms(4) have ret: "ret \<noteq> 0"
    by (simp add: cycle_fails_def)
  from assms(4) consider
      (start) "adc_start_channel env uc_pdata (of_nat c) w_c = (ret, w')"
    | (read) w1 d where "adc_start_channel env uc_pdata (of_nat c) w_c = (0, w1)"
        "adc_channel_data env uc_pdata (of_nat c) data_c w1 = (ret, d, w')"
    by (auto simp add: cycle_fails_def)
  then have "single_shot_loop env uc_pdata m c data_c channels w_c = (ret, channels, w')"
  proof cases
    case start
    from single_shot_start_fail [OF assms(1,2) start ret] show ?thesis .
  next
    case read
    from single_shot_read_fail [OF assms(1,2) read ret] show ?thesis .
  qed
  with reach ret show ?thesis
    by (simp add: adc_channels_single_shot_fallback_def)
qed

theorem fallback_aborts_at_first_failure_witness:
  "(3 :: nat) \<le> ADC_MAX_CHANNEL (ex_env\<lparr>ops_start_channel := Some ex_start_fail3\<rparr>) \<and>
   bit (0b1010 :: u32) 3 \<and>
   completed_cycles (ex_env\<lparr>ops_start_channel := Some ex_start_fail3\<rparr>) ex_pdata
       (filter (bit (0b1010 :: u32)) [0..<3]) 0 ex_world
     = Some ([(1, 101)], 101, \<lparr>hw = 1, calls = [Start_channel 1 0, Channel_data 1 0 101]\<rparr>) \<and>
   cycle_fails (ex_env\<lparr>ops_start_channel := Some ex_start_fail3\<rparr>) ex_pdata (of_nat 3) 101
       \<lparr>hw = 1, calls = [Start_channel 1 0, Channel_data 1 0 101]\<rparr> (- 5)
       \<lparr>hw = 1, calls = [Start_channel 1 0, Channel_data 1 0 101, Start_channel 3 (- 5)]\<rparr> \<and>
   adc_channels_single_shot_fallback
       (ex_env\<lparr>ops_start_channel := Some ex_start_fail3\<rparr>) ex_pdata 0b1010 0 ex_world
     = (- 5, [(1, 101)],
        \<lparr>hw = 1, calls = [Start_channel 1 0, Channel_data 1 0 101, Start_channel 3 (- 5)]\<rparr>) \<and>
   (- 5 :: cint) \<noteq> 0"
proof -
  let ?env = "ex_env\<lparr>ops_start_channel := Some ex_start_fail3\<rparr>"
  let ?w1 = "\<lparr>hw = 1 :: nat, calls = [Start_channel 1 0, Channel_data 1 0 101 :: nat event]\<rparr>"
  let ?w2 = "\<lparr>hw = 1 :: nat,
              calls = [Start_channel 1 0, Channel_data 1 0 101, Start_channel 3 (- 5) :: nat event]\<rparr>"
  have a: "(3 :: nat) \<le> ADC_MAX_CHANNEL ?env" by (simp add: ex_env_def)
  have b: "bit (0b1010 :: u32) 3" by simp
  have upt: "[0..<3] = [0, 1, 2 :: nat]" by (simp add: upt_rec)
  have c: "completed_cycles ?env ex_pdata (filter (bit (0b1010 :: u32)) [0..<3]) 0 ex_world
      = Some ([(1, 101)], 101, ?w1)"
    unfolding upt
    by (simp add: adc_start_channel_def adc_channel_data_def adc_supply_enable_def
        check_channel_def call_start_channel_def call_channel_data_def channel_data_loop.simps
        ex_env_def ex_pdata_def ex_world_def ex_start_fail3_def EBUSY_def)
  have d: "cycle_fails ?env ex_pdata (of_nat 3) 101 ?w1 (- 5) ?w2"
    by (simp add: cycle_fails_def adc_start_channel_def adc_supply_enable_def
        check_channel_def call_start_channel_def
        ex_env_def ex_pdata_def ex_start_fail3_def)
  from fallback_aborts_at_first_failure [OF a b c d] a b c d show ?thesis
    by blast
qed

text \<open>
  Conversely, every run of the engine that returns an error is such a run: it has a
  first requested channel whose cycle failed, with that error.
\<close>

lemma single_shot_failure:
  "single_shot_loop env pd m c0 data acc w = (ret, acc', w') \<Longrightarrow> ret \<noteq> 0 \<Longrightarrow>
     \<exists>c rs d_c w_c. c0 \<le> c \<and> c \<le> ADC_MAX_CHANNEL env \<and> bit m c \<and> acc' = acc @ rs \<and>
       completed_cycles env pd (filter (bit m) [c0..<c]) data w = Some (rs, d_c, w_c) \<and>
       cycle_fails env pd (of_nat c) d_c w_c ret w'"
proof (induction "Suc (ADC_MAX_CHANNEL env) - c0" arbitrary: c0 data acc w)
  case 0
  then have "\<not> c0 \<le> ADC_MAX_CHANNEL env" by simp
  with "0.prems" show ?case by (simp add: single_shot_done)
next
  case (Suc n)
  then have c0: "c0 \<le> ADC_MAX_CHANNEL env" and n: "n = Suc (ADC_MAX_CHANNEL env) - Suc c0"
    by simp_all
  have here: ?case
    if "cycle_fails env pd (of_nat c0) data w ret w'" and "bit m c0" and "acc' = acc"
    using that c0 by (intro exI [of _ c0] exI [of _ "[]"] exI [of _ data] exI [of _ w]) simp
  have upt: "[c0..<c] = c0 # [Suc c0..<c]" if "Suc c0 \<le> c" for c
    using that by (simp add: upt_conv_Cons)
  show ?case
  proof (cases "bit m c0")
    case False
    with c0 Suc.prems have run: "single_shot_loop env pd m (Suc c0) data acc w = (ret, acc', w')"
      by (simp add: single_shot_skip)
    from Suc.hyps(1) [OF n run Suc.prems(2)] obtain c rs d_c w_c
      where *: "Suc c0 \<le> c" "c \<le> ADC_MAX_CHANNEL env" "bit m c" "acc' = acc @ rs"
        "completed_cycles env pd (filter (bit m) [Suc c0..<c]) data w = Some (rs, d_c, w_c)"
        "cycle_fails env pd (of_nat c) d_c w_c ret w'"
      by blast
    from *(5) False upt [OF *(1)]
    have "completed_cycles env pd (filter (bit m) [c0..<c]) data w = Some (rs, d_c, w_c)"
      by simp
    with * show ?thesis
      by (intro exI [of _ c] exI [of _ rs] exI [of _ d_c] exI [of _ w_c]) simp
  next
    case True
    obtain r1 w1 where st: "adc_start_channel env pd (of_nat c0) w = (r1, w1)"
      by (cases "adc_start_channel env pd (of_nat c0) w")
    show ?thesis
    proof (cases "r1 = 0")
      case False
      from single_shot_start_fail [OF c0 True st False] Suc.prems
      have "r1 = ret" "acc' = acc" "w1 = w'" by simp_all
      with st Suc.prems(2) True show ?thesis
        by (intro here) (simp_all add: cycle_fails_def)
    next
      case r1: True
      obtain r2 d w2 where rd: "adc_channel_data env pd (of_nat c0) data w1 = (r2, d, w2)"
        by (cases "adc_channel_data env pd (of_nat c0) data w1")
      show ?thesis
      proof (cases "r2 = 0")
        case False
        from single_shot_read_fail [OF c0 True st [unfolded r1] rd False] Suc.prems
        have "r2 = ret" "acc' = acc" "w2 = w'" by simp_all
        with st r1 rd Suc.prems(2) True show ?thesis
          by (intro here) (auto simp add: cycle_fails_def)
      next
        case r2: True
        from single_shot_cycle [OF c0 True st [unfolded r1] rd [unfolded r2]] Suc.prems
        have run: "single_shot_loop env pd m (Suc c0) d (acc @ [(of_nat c0, d)]) w2
            = (ret, acc', w')"
          by simp
        from Suc.hyps(1) [OF n run Suc.prems(2)] obtain c rs d_c w_c
          where *: "Suc c0 \<le> c" "c \<le> ADC_MAX_CHANNEL env" "bit m c"
            "acc' = (acc @ [(of_nat c0, d)]) @ rs"
            "completed_cycles env pd (filter (bit m) [Suc c0..<c]) d w2 = Some (rs, d_c, w_c)"
            "cycle_fails env pd (of_nat c) d_c w_c ret w'"
          by blast
        from *(5) True upt [OF *(1)] st r1 rd r2
        have "completed_cycles env pd (filter (bit m) [c0..<c]) data w
            = Some ((of_nat c0, d) # rs, d_c, w_c)"
          by simp
        with * show ?thesis
          by (intro exI [of _ c] exI [of _ "(of_nat c0, d) # rs"] exI [of _ d_c]
              exI [of _ w_c]) simp
      qed
    qed
  qed
qed

lemma fallback_failure_has_first_failing_cycle:
  assumes "adc_channels_single_shot_fallback env uc_pdata m data0 w = (ret, channels, w')"
    and "ret \<noteq> 0"
  shows "\<exists>c data_c w_c. c \<le> ADC_MAX_CHANNEL env \<and> bit m c \<and>
           completed_cycles env uc_pdata (filter (bit m) [0..<c]) data0 w
             = Some (channels, data_c, w_c) \<and>
           cycle_fails env uc_pdata (of_nat c) data_c w_c ret w'"
  using single_shot_failure [OF assms(1) [unfolded adc_channels_single_shot_fallback_def] assms(2)]
  by auto

end
